theory Spec2Isabelle
  imports Complex_Main "HOL-Library.Sublist"
begin

section \<open>Feature properties as JavaScript primitives\<close>

text \<open>
  A feature handed to an event handler carries \<open>properties\<close>, a JSON object whose values
  are primitives (or \<open>null\<close> for the whole object), and a point geometry. A missing key reads
  as \<open>undefined\<close>. Numbers are modelled for integer values, printed in decimal as
  JavaScript prints them below \<open>10^21\<close>.
\<close>

datatype jsval = JUndefined | JNull | JBool bool | JNum int | JStr string

type_synonym props = "string \<rightharpoonup> jsval"

type_synonym lnglat = "real \<times> real"

record feature =
  properties :: "props option"
  coordinates :: lnglat

text \<open>\<open>Boolean(v)\<close>, which is also what \<open>||\<close> tests on its left operand.\<close>

fun truthy :: "jsval \<Rightarrow> bool" where
  "truthy JUndefined = False"
| "truthy JNull = False"
| "truthy (JBool b) = b"
| "truthy (JNum n) = (n \<noteq> 0)"
| "truthy (JStr s) = (s \<noteq> [])"

text \<open>\<open>a || b\<close>: the left operand when it is truthy, the right one otherwise.\<close>

definition js_or :: "jsval \<Rightarrow> jsval \<Rightarrow> jsval" where
  "js_or a b = (if truthy a then a else b)"

fun digits :: "nat \<Rightarrow> string" where
  "digits n = (if n < 10 then [''0123456789'' ! n]
               else digits (n div 10) @ [''0123456789'' ! (n mod 10)])"

declare digits.simps [simp del]

text \<open>\<open>String(v)\<close>, the conversion a template literal applies to an interpolated value.\<close>

fun to_string :: "jsval \<Rightarrow> string" where
  "to_string JUndefined = ''undefined''"
| "to_string JNull = ''null''"
| "to_string (JBool b) = (if b then ''true'' else ''false'')"
| "to_string (JNum n) = (if n < 0 then ''-'' @ digits (nat (- n)) else digits (nat n))"
| "to_string (JStr s) = s"

text \<open>
  \<open>Array.prototype.join\<close>: \<open>undefined\<close> and \<open>null\<close> elements give the empty string, every
  other element its \<open>String\<close>; the separator stands between consecutive elements.
\<close>

fun join_elem :: "jsval \<Rightarrow> string" where
  "join_elem JUndefined = []"
| "join_elem JNull = []"
| "join_elem v = to_string v"

fun join :: "string \<Rightarrow> jsval list \<Rightarrow> string" where
  "join sep [] = []"
| "join sep [v] = join_elem v"
| "join sep (v # w # vs) = join_elem v @ sep @ join sep (w # vs)"

text \<open>\<open>feature.properties || {}\<close> followed by a property read.\<close>

definition props_of :: "feature \<Rightarrow> props" where
  "props_of f = (case properties f of None \<Rightarrow> Map.empty | Some p \<Rightarrow> p)"

definition get_prop :: "props \<Rightarrow> string \<Rightarrow> jsval" where
  "get_prop p k = (case p k of None \<Rightarrow> JUndefined | Some v \<Rightarrow> v)"

section \<open>Popup content (mouseenter and click on \<open>unclustered-point\<close>)\<close>

text \<open>
  The two handlers build their content with the same three statements (lines 245--253 and
  292--300 of the component), so one definition of each statement serves both.

  \<^verbatim>\<open>const name = props.name || 'Unknown Pharmacy';\<close>
\<close>

definition display_name :: "props \<Rightarrow> jsval" where
  "display_name p = js_or (get_prop p ''name'') (JStr ''Unknown Pharmacy'')"

text \<open>
  \<^verbatim>\<open>const address = props.full_address
     || [props.address, props.city, props.state].filter(Boolean).join(', ')
     || 'Address not available';\<close>
\<close>

definition display_address :: "props \<Rightarrow> jsval" where
  "display_address p =
     js_or (js_or (get_prop p ''full_address'')
                  (JStr (join '', '' (filter truthy [get_prop p ''address'', get_prop p ''city'', get_prop p ''state'']))))
           (JStr ''Address not available'')"

text \<open>The template literal, with its line breaks and indentation.\<close>

definition html_open :: string where
  \<open>html_open = [CHR 0x0A] @ ''          <div style="padding: 8px; min-width: 200px;">'' @ [CHR 0x0A] @
     ''            <strong style="font-size: 14px; display: block; margin-bottom: 4px;">''\<close>

definition html_mid :: string where
  \<open>html_mid = ''</strong>'' @ [CHR 0x0A] @
     ''            <span style="color: #666; font-size: 12px;">''\<close>

definition html_close :: string where
  \<open>html_close = ''</span>'' @ [CHR 0x0A] @ ''          </div>'' @ [CHR 0x0A] @ ''        ''\<close>

definition popupContent :: "props \<Rightarrow> string" where
  "popupContent p =
     html_open @ to_string (display_name p) @ html_mid @ to_string (display_address p) @ html_close"

text \<open>The two strings a reader of the tooltip sees: the name line and the address line.\<close>

definition tooltip_text :: "props \<Rightarrow> string \<times> string" where
  "tooltip_text p = (to_string (display_name p), to_string (display_address p))"

subsection \<open>The fallback chain in the specification's words\<close>

text \<open>
  A property is present when it holds a truthy value: a missing key, \<open>null\<close>, the empty
  string, \<open>0\<close> and \<open>false\<close> are not present.
\<close>

definition present :: "props \<Rightarrow> string \<Rightarrow> bool" where
  "present p k = truthy (get_prop p k)"

fun joined :: "string list \<Rightarrow> string" where
  "joined [] = []"
| "joined [s] = s"
| "joined (s # t # ss) = s @ '', '' @ joined (t # ss)"

definition spec_name :: "props \<Rightarrow> string" where
  "spec_name p =
     (if present p ''name'' then to_string (get_prop p ''name'') else ''Unknown Pharmacy'')"

definition spec_address :: "props \<Rightarrow> string" where
  "spec_address p =
     (if present p ''full_address'' then to_string (get_prop p ''full_address'')
      else if present p ''address'' \<or> present p ''city'' \<or> present p ''state''
      then joined (map (\<lambda>k. to_string (get_prop p k)) (filter (present p) [''address'', ''city'', ''state'']))
      else ''Address not available'')"

text \<open>The records of the specification's two examples.\<close>

definition example_partial :: props where
  "example_partial = [''name'' \<mapsto> JNull, ''address'' \<mapsto> JStr ''1 Main St'',
                      ''city'' \<mapsto> JStr ''Springfield'', ''state'' \<mapsto> JStr ''OH'']"

definition example_empty :: props where
  "example_empty = [''name'' \<mapsto> JStr [], ''full_address'' \<mapsto> JStr [], ''address'' \<mapsto> JStr [],
                    ''city'' \<mapsto> JStr [], ''state'' \<mapsto> JStr []]"

text \<open>Records whose values carry markup.\<close>

definition example_markup :: props where
  \<open>example_markup = [''name'' \<mapsto> JStr ''<b>Rx</b>'',
                      ''full_address'' \<mapsto> JStr ''<img src=x onerror="alert(1)">'']\<close>

definition example_markup_part :: props where
  "example_markup_part = [''city'' \<mapsto> JStr ''<u>Troy</u>'', ''state'' \<mapsto> JStr ''NY'']"

definition example_feature :: feature where
  "example_feature = \<lparr>properties = Some example_markup, coordinates = (-73.69, 42.73)\<rparr>"

section \<open>Paint expressions of the layers\<close>

text \<open>
  The style expression \<open>['step', input, out0, stop1, out1, ...]\<close> yields the output of the
  last stop that is not above the input, and \<open>out0\<close> below the first stop.
\<close>

fun step :: "'a::linorder \<Rightarrow> 'b \<Rightarrow> ('a \<times> 'b) list \<Rightarrow> 'b" where
  "step x out [] = out"
| "step x out ((stop, out') # rest) = (if x < stop then out else step x out' rest)"

text \<open>
  \<open>['interpolate', ['linear'], input, stop0, out0, stop1, out1, ...]\<close>: the first output
  at or below the first stop, the last output from the last stop on, and between two stops
  the outputs weighted by the input's progress from the lower to the upper stop.
\<close>

fun interpolate_linear :: "real \<Rightarrow> real \<times> real \<Rightarrow> (real \<times> real) list \<Rightarrow> real" where
  "interpolate_linear x (s0, v0) [] = v0"
| "interpolate_linear x (s0, v0) ((s1, v1) # rest) =
     (if x \<le> s0 then v0
      else if x < s1 then v0 * (1 - (x - s0) / (s1 - s0)) + v1 * ((x - s0) / (s1 - s0))
      else interpolate_linear x (s1, v1) rest)"

text \<open>Layer \<open>clusters\<close>: \<open>circle-color\<close> and \<open>circle-radius\<close> over \<open>['get', 'point_count']\<close>.\<close>

definition clusters_circle_color :: "nat \<Rightarrow> string" where
  "clusters_circle_color point_count =
     step point_count ''#51bbd6'' [(100, ''#f1f075''), (750, ''#f28cb1'')]"

definition clusters_circle_radius :: "nat \<Rightarrow> real" where
  "clusters_circle_radius point_count = step point_count 20 [(100, 30), (750, 40)]"

text \<open>Layer \<open>unclustered-point\<close>: \<open>circle-color\<close> and \<open>circle-radius\<close> over \<open>['zoom']\<close>.\<close>

definition unclustered_point_circle_color :: string where
  "unclustered_point_circle_color = ''#11b4da''"

definition unclustered_point_circle_radius :: "real \<Rightarrow> real" where
  "unclustered_point_circle_radius zoom = interpolate_linear zoom (10, 4) [(15, 8)]"

section \<open>The map: source, layers, popups and the calls made on it\<close>

datatype call =
    ConsoleLog string
  | ConsoleWarn string
  | ConsoleError string
  | AddSource string
  | AddLayer string
  | EaseTo lnglat real
  | Reload string

text \<open>
  The options object given to \<open>addSource\<close>. The last two fields say whether the source
  object the map hands back has a \<open>setData\<close> and a \<open>reload\<close> member, which the code tests
  with \<open>in\<close> before it relies on them.
\<close>

record geojson_source =
  data :: string
  cluster :: bool
  clusterMaxZoom :: nat
  clusterRadius :: nat
  generateId :: bool
  has_setData :: bool
  has_reload :: bool

datatype layer_filter = Has string | Not layer_filter

record layer =
  layer_id :: string
  layer_type :: string
  layer_source :: string
  layer_filter :: layer_filter
  minzoom :: "real option"

text \<open>A \<open>mapboxgl.Popup\<close>: its two options, its anchor, its content, and whether it is on the map.\<close>

record popup =
  closeButton :: bool
  closeOnClick :: bool
  lngLat :: "lnglat option"
  html :: "string option"
  on_map :: bool

text \<open>
  \<open>popups\<close> holds every popup object created so far, in creation order. \<open>tooltip\<close> is the
  object the \<open>load\<close> handler creates and its hover handlers close over (its position in
  \<open>popups\<close>); it is \<open>None\<close> until \<open>load\<close> has fired, and no layer handler is registered
  before that. \<open>calls\<close> is the log of console and map calls, oldest first.
\<close>

record map_state =
  sources :: "string \<rightharpoonup> geojson_source"
  layers :: "layer list"
  popups :: "popup list"
  tooltip :: "nat option"
  cursor :: string
  calls :: "call list"

definition do_call :: "call \<Rightarrow> map_state \<Rightarrow> map_state" where
  "do_call c st = st\<lparr>calls := calls st @ [c]\<rparr>"

text \<open>The map as \<open>new mapboxgl.Map\<close> returns it: nothing added yet.\<close>

definition new_Map :: map_state where
  "new_Map = \<lparr>sources = Map.empty, layers = [], popups = [], tooltip = None,
              cursor = [], calls = []\<rparr>"

definition new_Popup :: "bool \<Rightarrow> bool \<Rightarrow> popup" where
  "new_Popup close_button close_on_click =
     \<lparr>closeButton = close_button, closeOnClick = close_on_click,
      lngLat = None, html = None, on_map = False\<rparr>"

definition addSource :: "string \<Rightarrow> geojson_source \<Rightarrow> map_state \<Rightarrow> map_state" where
  "addSource name src st = do_call (AddSource name) (st\<lparr>sources := (sources st)(name \<mapsto> src)\<rparr>)"

definition addLayer :: "layer \<Rightarrow> map_state \<Rightarrow> map_state" where
  "addLayer l st = do_call (AddLayer (layer_id l)) (st\<lparr>layers := layers st @ [l]\<rparr>)"

definition clusters_layer :: layer where
  "clusters_layer = \<lparr>layer_id = ''clusters'', layer_type = ''circle'', layer_source = ''pharmacies'',
                     layer_filter = Has ''point_count'', minzoom = None\<rparr>"

definition cluster_count_layer :: layer where
  "cluster_count_layer = \<lparr>layer_id = ''cluster-count'', layer_type = ''symbol'',
                          layer_source = ''pharmacies'', layer_filter = Has ''point_count'',
                          minzoom = None\<rparr>"

definition unclustered_point_layer :: layer where
  "unclustered_point_layer = \<lparr>layer_id = ''unclustered-point'', layer_type = ''circle'',
                              layer_source = ''pharmacies'',
                              layer_filter = Not (Has ''point_count''), minzoom = Some 10\<rparr>"

text \<open>
  The \<open>load\<close> handler. \<open>caps\<close> says which of \<open>setData\<close> and \<open>reload\<close> the created source
  object has. The handler adds the source and the three layers, creates the hover popup
  (no close button, not closed by a click on the map) and registers the layer handlers.
\<close>

definition on_load :: "bool \<times> bool \<Rightarrow> map_state \<Rightarrow> map_state" where
  "on_load caps st =
     (let st1 = do_call (ConsoleLog ''Loading pharmacy data...'') st;
          st2 = addSource ''pharmacies''
                  \<lparr>data = ''/data/pharmacies.geojson'', cluster = True, clusterMaxZoom = 12,
                   clusterRadius = 50, generateId = True,
                   has_setData = fst caps, has_reload = snd caps\<rparr> st1;
          st3 = (if fst caps then do_call (ConsoleLog ''Pharmacy source added, loading data...'') st2
                 else st2);
          st4 = addLayer unclustered_point_layer (addLayer cluster_count_layer (addLayer clusters_layer st3));
          st5 = st4\<lparr>popups := popups st4 @ [new_Popup False False],
                    tooltip := Some (length (popups st4))\<rparr>
      in do_call (ConsoleLog ''Map layers and interactions set up'') st5)"

subsection \<open>Layer event handlers\<close>

text \<open>
  \<open>e.features\<close> of a layer event is \<open>undefined\<close> or an array. Every handler starts with
  \<^verbatim>\<open>if (!e.features || e.features.length === 0) return;\<close> and then reads \<open>e.features[0]\<close>.
\<close>

definition first_feature :: "feature list option \<Rightarrow> feature option" where
  "first_feature fs = (case fs of None \<Rightarrow> None | Some [] \<Rightarrow> None | Some (f # _) \<Rightarrow> Some f)"

text \<open>
  A method call on the popup object at position \<open>i\<close>. The handlers hold a reference to an
  object that exists; a position outside \<open>popups\<close> changes nothing.
\<close>

definition update_popup :: "nat \<Rightarrow> (popup \<Rightarrow> popup) \<Rightarrow> map_state \<Rightarrow> map_state" where
  "update_popup i g st =
     (if i < length (popups st) then st\<lparr>popups := (popups st)[i := g (popups st ! i)]\<rparr> else st)"

text \<open>\<open>popup.setLngLat(coordinates).setHTML(popupContent).addTo(currentMap)\<close> on the hover popup.\<close>

definition on_mouseenter_point :: "nat \<Rightarrow> feature list option \<Rightarrow> map_state \<Rightarrow> map_state" where
  "on_mouseenter_point i e st =
     (case first_feature e of
        None \<Rightarrow> st
      | Some f \<Rightarrow>
          update_popup i (\<lambda>p. p\<lparr>lngLat := Some (coordinates f),
                                html := Some (popupContent (props_of f)),
                                on_map := True\<rparr>) st)"

text \<open>\<open>popup.remove()\<close>.\<close>

definition on_mouseleave_point :: "nat \<Rightarrow> map_state \<Rightarrow> map_state" where
  "on_mouseleave_point i st = update_popup i (\<lambda>p. p\<lparr>on_map := False\<rparr>) st"

definition set_cursor :: "string \<Rightarrow> map_state \<Rightarrow> map_state" where
  "set_cursor c st = st\<lparr>cursor := c\<rparr>"

text \<open>
  What \<open>getClusterExpansionZoom\<close> passes to its callback: an error (or none) and a zoom that
  may be \<open>undefined\<close> or \<open>null\<close>.
\<close>

datatype js_error = Error string

datatype 'a nullable = Undefined | Null | Value 'a

type_synonym expansion = "jsval \<Rightarrow> js_error option \<times> real nullable"

text \<open>\<open>feature.properties?.cluster_id\<close>.\<close>

definition cluster_id :: "feature \<Rightarrow> jsval" where
  "cluster_id f = (case properties f of None \<Rightarrow> JUndefined | Some p \<Rightarrow> get_prop p ''cluster_id'')"

text \<open>
  Click on \<open>clusters\<close>. \<open>getSource('pharmacies')\<close> is cast, not tested: without the source
  the method call throws before anything has changed. \<open>resolve\<close> is what the source answers
  for a cluster id at the time of the click.
\<close>

definition on_click_clusters :: "expansion \<Rightarrow> feature list option \<Rightarrow> map_state \<Rightarrow> map_state" where
  "on_click_clusters resolve e st =
     (case first_feature e of
        None \<Rightarrow> st
      | Some f \<Rightarrow>
          (case sources st ''pharmacies'' of
             None \<Rightarrow> st
           | Some _ \<Rightarrow>
               (case resolve (cluster_id f) of
                  (Some err, _) \<Rightarrow> st
                | (None, Undefined) \<Rightarrow> st
                | (None, Null) \<Rightarrow> st
                | (None, Value zoom) \<Rightarrow> do_call (EaseTo (coordinates f) zoom) st)))"

text \<open>
  Click on \<open>unclustered-point\<close>: a new popup with the default options, shown at once.
  What a popup does by itself on later clicks on the map is not part of this handler.
\<close>

definition on_click_point :: "feature list option \<Rightarrow> map_state \<Rightarrow> map_state" where
  "on_click_point e st =
     (case first_feature e of
        None \<Rightarrow> st
      | Some f \<Rightarrow>
          st\<lparr>popups := popups st @
                [(new_Popup True True)\<lparr>lngLat := Some (coordinates f),
                                       html := Some (popupContent (props_of f)),
                                       on_map := True\<rparr>]\<rparr>)"

subsection \<open>Rendering-context handlers\<close>

definition on_webglcontextlost :: "map_state \<Rightarrow> map_state" where
  "on_webglcontextlost st = do_call (ConsoleWarn ''WebGL context lost'') st"

definition on_webglcontextrestored :: "map_state \<Rightarrow> map_state" where
  "on_webglcontextrestored st =
     (let st1 = do_call (ConsoleLog ''WebGL context restored'') st
      in case sources st1 ''pharmacies'' of
           None \<Rightarrow> st1
         | Some src \<Rightarrow> if has_reload src then do_call (Reload ''pharmacies'') st1 else st1)"

subsection \<open>Dispatch\<close>

datatype event =
    MouseEnterPoint "feature list option"
  | MouseLeavePoint
  | MouseEnterCluster
  | MouseLeaveCluster
  | ClickCluster "feature list option" expansion
  | ClickPoint "feature list option"
  | ContextLost
  | ContextRestored

text \<open>
  The context handlers are registered when the map is constructed; the layer handlers by
  the \<open>load\<close> handler, those of one event in the order of registration.
\<close>

fun layer_handlers :: "nat \<Rightarrow> event \<Rightarrow> map_state \<Rightarrow> map_state" where
  "layer_handlers i (MouseEnterPoint e) st = set_cursor ''pointer'' (on_mouseenter_point i e st)"
| "layer_handlers i MouseLeavePoint st = set_cursor [] (on_mouseleave_point i st)"
| "layer_handlers i MouseEnterCluster st = set_cursor ''pointer'' st"
| "layer_handlers i MouseLeaveCluster st = set_cursor [] st"
| "layer_handlers i (ClickCluster e resolve) st = on_click_clusters resolve e st"
| "layer_handlers i (ClickPoint e) st = on_click_point e st"
| "layer_handlers i ev st = st"

fun dispatch :: "event \<Rightarrow> map_state \<Rightarrow> map_state" where
  "dispatch ContextLost st = on_webglcontextlost st"
| "dispatch ContextRestored st = on_webglcontextrestored st"
| "dispatch ev st = (case tooltip st of None \<Rightarrow> st | Some i \<Rightarrow> layer_handlers i ev st)"




subsection \<open>Invariants of the map after \<open>load\<close>\<close>

text \<open>The source is there and the hover popup exists.\<close>

definition loaded :: "map_state \<Rightarrow> bool" where
  "loaded st = (sources st ''pharmacies'' \<noteq> None \<and>
                (case tooltip st of None \<Rightarrow> False | Some i \<Rightarrow> i < length (popups st)))"


subsection \<open>Example features and an example source answer\<close>





subsection \<open>Stale cluster ids\<close>




section \<open>The map component: mounting and the deferred initialization\<close>

text \<open>
  \<open>container\<close> is \<open>mapContainer.current\<close>: \<open>None\<close> for \<open>null\<close>, otherwise the element's
  \<open>offsetWidth\<close> and \<open>offsetHeight\<close>. \<open>map_current\<close> is \<open>map.current\<close>. \<open>timer\<close> is the
  pending timeout with its delay in milliseconds. \<open>cleanup\<close> is the function the effect
  returned, \<open>console\<close> what the effect has logged.
\<close>

datatype cleanup = NoCleanup | ClearTimeout | RemoveMap

record component =
  container :: "(nat \<times> nat) option"
  map_current :: "map_state option"
  timer :: "nat option"
  cleanup :: cleanup
  console :: "call list"

text \<open>
  \<open>initializeMap\<close>. \<open>ctor_ok\<close> says whether \<open>new mapboxgl.Map\<close> returns; when it throws, the
  \<open>catch\<close> block logs and \<open>map.current\<close> stays \<open>null\<close>.
\<close>

definition initializeMap :: "bool \<Rightarrow> component \<Rightarrow> component" where
  "initializeMap ctor_ok c =
     (if container c = None \<or> map_current c \<noteq> None then c
      else if ctor_ok
      then c\<lparr>map_current := Some new_Map,
              console := console c @ [ConsoleLog ''Map initialized successfully'']\<rparr>
      else c\<lparr>console := console c @ [ConsoleError ''Failed to initialize map:'']\<rparr>)"

text \<open>The body of \<open>useEffect\<close>, run when the component has mounted.\<close>

definition effect :: "bool \<Rightarrow> component \<Rightarrow> component" where
  "effect ctor_ok c =
     (case container c of
        None \<Rightarrow> c\<lparr>cleanup := NoCleanup\<rparr>
      | Some (w, h) \<Rightarrow>
          if map_current c \<noteq> None then c\<lparr>cleanup := NoCleanup\<rparr>
          else if w = 0 \<or> h = 0
          then c\<lparr>console := console c @ [ConsoleWarn ''Map container has no dimensions, waiting...''],
                  timer := Some 100, cleanup := ClearTimeout\<rparr>
          else (initializeMap ctor_ok c)\<lparr>cleanup := RemoveMap\<rparr>)"

text \<open>The timeout's callback; a timeout fires once.\<close>

definition timer_fired :: "bool \<Rightarrow> component \<Rightarrow> component" where
  "timer_fired ctor_ok c =
     (case timer c of
        None \<Rightarrow> c
      | Some delay \<Rightarrow>
          (case container c of
             None \<Rightarrow> c\<lparr>timer := None\<rparr>
           | Some (w, h) \<Rightarrow>
               if 0 < w \<and> 0 < h then initializeMap ctor_ok (c\<lparr>timer := None\<rparr>)
               else c\<lparr>timer := None\<rparr>))"

text \<open>Unmounting runs the returned cleanup; the ref is cleared with the element.\<close>

definition unmount :: "component \<Rightarrow> component" where
  "unmount c =
     (case cleanup c of
        NoCleanup \<Rightarrow> c
      | ClearTimeout \<Rightarrow> c\<lparr>timer := None\<rparr>
      | RemoveMap \<Rightarrow> c\<lparr>map_current := None\<rparr>)\<lparr>container := None, cleanup := NoCleanup\<rparr>"

text \<open>
  What can happen to a mounted component: its effect runs, its timeout fires, the host
  element takes a new size (no code of the component listens to that), it unmounts.
\<close>

datatype lifecycle = EffectRuns | TimerFires | Resized nat nat | Unmounts

fun lifecycle_step :: "bool \<Rightarrow> lifecycle \<Rightarrow> component \<Rightarrow> component" where
  "lifecycle_step ok EffectRuns c = effect ok c"
| "lifecycle_step ok TimerFires c = timer_fired ok c"
| "lifecycle_step ok (Resized w h) c =
     (case container c of None \<Rightarrow> c | Some _ \<Rightarrow> c\<lparr>container := Some (w, h)\<rparr>)"
| "lifecycle_step ok Unmounts c = unmount c"

fun lifecycle_run :: "bool \<Rightarrow> lifecycle list \<Rightarrow> component \<Rightarrow> component" where
  "lifecycle_run ok [] c = c"
| "lifecycle_run ok (e # es) c = lifecycle_run ok es (lifecycle_step ok e c)"

text \<open>The component as rendered, before its effect has run, on a host of the given size.\<close>

definition rendered :: "nat \<Rightarrow> nat \<Rightarrow> component" where
  "rendered w h = \<lparr>container = Some (w, h), map_current = None, timer = None,
                    cleanup = NoCleanup, console = []\<rparr>"

section \<open>The application shell and its token guard\<close>

text \<open>
  What \<open>App\<close> returns: elements with their inline style, text, and the map component with
  the token it is given. \<open>MAPBOX_TOKEN\<close> is read once from the environment when the module
  loads: a string, or \<open>undefined\<close>.
\<close>

datatype vnode =
    Element string "(string \<times> string) list" "vnode list"
  | Text string
  | MapView string

definition missing_token_screen :: vnode where
  "missing_token_screen =
     Element ''div''
       [(''display'', ''flex''), (''alignItems'', ''center''), (''justifyContent'', ''center''),
        (''height'', ''100vh''), (''flexDirection'', ''column''), (''gap'', ''16px'')]
       [Element ''h1'' [] [Text ''PharmAccess Explorer''],
        Element ''p'' [(''color'', ''#d32f2f'')]
          [Text ''Error: VITE_MAPBOX_ACCESS_TOKEN environment variable is not set.''],
        Element ''p'' [(''color'', ''#666''), (''fontSize'', ''14px'')]
          [Text ''Please create a '', Element ''code'' [] [Text ''.env''], Text '' file with:'',
           Element ''br'' [] [],
           Element ''code'' [] [Text ''VITE_MAPBOX_ACCESS_TOKEN=your_token_here'']]]"

definition explorer_screen :: "string \<Rightarrow> vnode" where
  "explorer_screen token =
     Element ''div''
       [(''display'', ''flex''), (''flexDirection'', ''column''), (''height'', ''100vh''),
        (''width'', ''100vw'')]
       [Element ''header''
          [(''padding'', ''16px 24px''), (''backgroundColor'', ''#1a1a2e''),
           (''borderBottom'', ''1px solid #2d2d44''),
           (''boxShadow'', ''0 2px 4px rgba(0,0,0,0.3)''), (''zIndex'', ''1000''),
           (''flexShrink'', ''0'')]
          [Element ''h1''
             [(''margin'', ''0''), (''fontSize'', ''24px''), (''fontWeight'', ''600''),
              (''color'', ''#e0e0e0'')]
             [Text ''PharmAccess Explorer''],
           Element ''p''
             [(''margin'', ''4px 0 0 0''), (''fontSize'', ''14px''), (''color'', ''#b0b0b0'')]
             [Text ''Mapping pharmacy deserts and supply-chain connectivity across the United States'']],
        Element ''div''
          [(''flex'', ''1''), (''position'', ''relative''), (''minHeight'', ''0''),
           (''width'', ''100%'')]
          [MapView token]]"

text \<open>\<open>if (!MAPBOX_TOKEN)\<close>: \<open>undefined\<close> and the empty string take the first branch.\<close>

definition App :: "string option \<Rightarrow> vnode" where
  "App MAPBOX_TOKEN =
     (case MAPBOX_TOKEN of
        None \<Rightarrow> missing_token_screen
      | Some token \<Rightarrow> if token = [] then missing_token_screen else explorer_screen token)"

text \<open>The map components a tree mounts, and the text it shows.\<close>

fun map_views :: "vnode \<Rightarrow> string list" where
  "map_views (Element tag style children) = concat (map map_views children)"
| "map_views (Text t) = []"
| "map_views (MapView token) = [token]"

fun texts :: "vnode \<Rightarrow> string list" where
  "texts (Element tag style children) = concat (map texts children)"
| "texts (Text t) = [t]"
| "texts (MapView token) = []"

fun root_style :: "vnode \<Rightarrow> string \<rightharpoonup> string" where
  "root_style (Element tag style children) = map_of style"
| "root_style v = Map.empty"

section \<open>Properties of the content\<close>

lemma digits_nonempty: "digits n \<noteq> []"
  by (subst digits.simps) simp

lemma to_string_truthy: "truthy v \<Longrightarrow> to_string v \<noteq> []"
  by (cases v) (simp_all add: digits_nonempty)

lemma join_elem_truthy: "truthy v \<Longrightarrow> join_elem v = to_string v"
  by (cases v) simp_all

lemma join_joined: "\<forall>v \<in> set vs. truthy v \<Longrightarrow> join '', '' vs = joined (map to_string vs)"
  by (induction vs rule: induct_list012) (simp_all add: join_elem_truthy)

lemma joined_nonempty: "ss \<noteq> [] \<Longrightarrow> \<forall>s \<in> set ss. s \<noteq> [] \<Longrightarrow> joined ss \<noteq> []"
  by (induction ss rule: induct_list012) simp_all

lemma display_name_spec: "to_string (display_name p) = spec_name p"
  by (simp add: display_name_def spec_name_def js_or_def present_def)

lemma display_address_spec: "to_string (display_address p) = spec_address p"
proof -
  let ?vs = "filter truthy [get_prop p ''address'', get_prop p ''city'', get_prop p ''state'']"
  have parts: "map (\<lambda>k. to_string (get_prop p k)) (filter (present p) [''address'', ''city'', ''state''])
                = map to_string ?vs"
    by (simp add: present_def)
  have j: "join '', '' ?vs = joined (map to_string ?vs)"
    by (rule join_joined) simp
  show ?thesis
  proof (cases "present p ''full_address''")
    case True
    then show ?thesis
      by (simp add: display_address_def spec_address_def js_or_def present_def)
  next
    case nofull: False
    show ?thesis
    proof (cases "present p ''address'' \<or> present p ''city'' \<or> present p ''state''")
      case True
      then have ne: "?vs \<noteq> []"
        by (auto simp: present_def)
      have "\<forall>s \<in> set (map to_string ?vs). s \<noteq> []"
        by (auto simp: to_string_truthy)
      with ne have "joined (map to_string ?vs) \<noteq> []"
        by (intro joined_nonempty) simp_all
      with j have "truthy (JStr (join '', '' ?vs))"
        by simp
      with nofull True j parts show ?thesis
        unfolding display_address_def spec_address_def js_or_def present_def
        by (simp only: if_True if_False to_string.simps)
    next
      case False
      then have "?vs = []"
        by (simp add: present_def)
      with nofull False show ?thesis
        by (simp add: display_address_def spec_address_def js_or_def present_def)
    qed
  qed
qed

text \<open>
  Claim C6. For every point record the tooltip and popup content follows the fallback
  chain: the name line is the \<open>name\<close> property when present and \<open>Unknown Pharmacy\<close> otherwise;
  the address line is \<open>full_address\<close> when present, otherwise the present ones among
  \<open>address\<close>, \<open>city\<close>, \<open>state\<close> joined by a comma and a space, otherwise
  \<open>Address not available\<close>. A record with a null name, no full address and the parts
  \<open>1 Main St\<close>, \<open>Springfield\<close>, \<open>OH\<close> shows \<open>Unknown Pharmacy\<close> and
  \<open>1 Main St, Springfield, OH\<close>; a record whose fields are all empty (or that has no
  fields) shows \<open>Unknown Pharmacy\<close> and \<open>Address not available\<close>.
\<close>

theorem fallback_content:
  "tooltip_text p = (spec_name p, spec_address p)
   \<and> popupContent p = html_open @ spec_name p @ html_mid @ spec_address p @ html_close
   \<and> tooltip_text example_partial = (''Unknown Pharmacy'', ''1 Main St, Springfield, OH'')
   \<and> tooltip_text example_empty = (''Unknown Pharmacy'', ''Address not available'')
   \<and> tooltip_text Map.empty = (''Unknown Pharmacy'', ''Address not available'')"
proof -
  have general: "tooltip_text q = (spec_name q, spec_address q)" for q
    by (simp add: tooltip_text_def display_name_spec display_address_spec)
  have "spec_name example_partial = ''Unknown Pharmacy''"
    by (simp add: spec_name_def present_def get_prop_def example_partial_def)
  moreover have "spec_address example_partial = ''1 Main St, Springfield, OH''"
    by (simp add: spec_address_def present_def get_prop_def example_partial_def)
  moreover have "spec_name example_empty = ''Unknown Pharmacy''"
    by (simp add: spec_name_def present_def get_prop_def example_empty_def)
  moreover have "spec_address example_empty = ''Address not available''"
    by (simp add: spec_address_def present_def get_prop_def example_empty_def)
  moreover have "spec_name Map.empty = ''Unknown Pharmacy''"
    by (simp add: spec_name_def present_def get_prop_def)
  moreover have "spec_address Map.empty = ''Address not available''"
    by (simp add: spec_address_def present_def get_prop_def)
  moreover have "popupContent p = html_open @ spec_name p @ html_mid @ spec_address p @ html_close"
    by (simp add: popupContent_def display_name_spec display_address_spec)
  ultimately show ?thesis
    by (simp add: general)
qed

theorem fallback_content_witness:
  "tooltip_text [''name'' \<mapsto> JStr ''Elm Drug'', ''full_address'' \<mapsto> JStr ''2 Elm St, Troy, NY'',
                 ''city'' \<mapsto> JStr ''Troy'']
     = (''Elm Drug'', ''2 Elm St, Troy, NY'')
   \<and> tooltip_text [''name'' \<mapsto> JStr [], ''city'' \<mapsto> JStr ''Troy'', ''state'' \<mapsto> JStr ''NY'']
     = (''Unknown Pharmacy'', ''Troy, NY'')"
  using fallback_content [of "[''name'' \<mapsto> JStr ''Elm Drug'',
                               ''full_address'' \<mapsto> JStr ''2 Elm St, Troy, NY'', ''city'' \<mapsto> JStr ''Troy'']"]
        fallback_content [of "[''name'' \<mapsto> JStr [], ''city'' \<mapsto> JStr ''Troy'', ''state'' \<mapsto> JStr ''NY'']"]
  by (simp add: spec_name_def spec_address_def present_def get_prop_def)

subsection \<open>Interpolated values are not escaped\<close>

lemma sublist_join:
  "v \<in> set vs \<Longrightarrow> \<forall>u \<in> set vs. truthy u \<Longrightarrow> sublist (to_string v) (join sep vs)"
proof (induction vs rule: induct_list012)
  case 1
  then show ?case by simp
next
  case (2 x)
  then show ?case by (simp add: join_elem_truthy)
next
  case (3 x y zs)
  show ?case
  proof (cases "v = x")
    case True
    with 3 show ?thesis
      unfolding sublist_def by (simp add: join_elem_truthy) (metis append_Nil)
  next
    case False
    with 3 have "sublist (to_string v) (join sep (y # zs))"
      by simp
    then have "sublist (to_string v) ((join_elem x @ sep) @ join sep (y # zs))"
      unfolding sublist_def by (metis append.assoc)
    then show ?thesis by simp
  qed
qed

lemma popupContent_name:
  assumes "get_prop p ''name'' = JStr s" and "s \<noteq> []"
  shows "sublist s (popupContent p)"
proof -
  have "to_string (display_name p) = s"
    using assms by (simp add: display_name_def js_or_def)
  then have "popupContent p = html_open @ s @ (html_mid @ to_string (display_address p) @ html_close)"
    by (simp add: popupContent_def)
  then show ?thesis
    unfolding sublist_def by blast
qed

lemma popupContent_address_sub:
  assumes "sublist a (to_string (display_address p))"
  shows "sublist a (popupContent p)"
proof -
  from assms obtain xs ys where "to_string (display_address p) = xs @ a @ ys"
    unfolding sublist_def by blast
  then have "popupContent p =
      (html_open @ to_string (display_name p) @ html_mid @ xs) @ a @ (ys @ html_close)"
    by (simp add: popupContent_def)
  then show ?thesis
    unfolding sublist_def by blast
qed

lemma popupContent_full_address:
  assumes "get_prop p ''full_address'' = JStr a" and "a \<noteq> []"
  shows "sublist a (popupContent p)"
proof -
  have "to_string (display_address p) = a"
    using assms by (simp add: display_address_def js_or_def)
  then show ?thesis
    by (intro popupContent_address_sub) simp
qed

lemma popupContent_part:
  assumes "\<not> truthy (get_prop p ''full_address'')"
    and "k \<in> {''address'', ''city'', ''state''}" and "get_prop p k = JStr a" and "a \<noteq> []"
  shows "sublist a (popupContent p)"
proof -
  let ?vs = "filter truthy [get_prop p ''address'', get_prop p ''city'', get_prop p ''state'']"
  have mem: "JStr a \<in> set ?vs"
    using assms by auto
  then have sub: "sublist (to_string (JStr a)) (join '', '' ?vs)"
    by (rule sublist_join) simp
  have "join '', '' ?vs \<noteq> []"
  proof
    assume "join '', '' ?vs = []"
    with sub assms(4) show False by simp
  qed
  then have "to_string (display_address p) = join '', '' ?vs"
    using assms(1) by (simp add: display_address_def js_or_def)
  with sub show ?thesis
    by (intro popupContent_address_sub) simp
qed

lemma hover_html:
  assumes "tooltip st = Some i" and "i < length (popups st)"
  shows "html (popups (dispatch (MouseEnterPoint (Some (f # fs))) st) ! i)
           = Some (popupContent (props_of f))"
  using assms
  by (simp add: on_mouseenter_point_def first_feature_def update_popup_def set_cursor_def)

lemma click_html:
  assumes "tooltip st = Some i"
  shows "html (last (popups (dispatch (ClickPoint (Some (f # fs))) st)))
           = Some (popupContent (props_of f))"
  using assms
  by (simp add: on_click_point_def first_feature_def)

text \<open>
  Claim C10. The content of the hover tooltip and of the click popup is the template with
  the name and the address values put in as they are: nothing is escaped. A name, a full
  address, or (when the full address is not present) an address part that is a non-empty
  string appears character for character in the string handed to the popup, markup
  included.
\<close>

theorem popup_content_verbatim:
  "popupContent p =
     html_open @ to_string (display_name p) @ html_mid @ to_string (display_address p) @ html_close
   \<and> (get_prop p ''name'' = JStr s \<and> s \<noteq> [] \<longrightarrow> sublist s (popupContent p))
   \<and> (get_prop p ''full_address'' = JStr a \<and> a \<noteq> [] \<longrightarrow> sublist a (popupContent p))
   \<and> (\<not> truthy (get_prop p ''full_address'') \<and> k \<in> {''address'', ''city'', ''state''}
        \<and> get_prop p k = JStr b \<and> b \<noteq> [] \<longrightarrow> sublist b (popupContent p))
   \<and> (tooltip st = Some i \<and> i < length (popups st) \<longrightarrow>
        html (popups (dispatch (MouseEnterPoint (Some (f # fs))) st) ! i)
          = Some (popupContent (props_of f)))
   \<and> (tooltip st = Some i \<longrightarrow>
        html (last (popups (dispatch (ClickPoint (Some (f # fs))) st)))
          = Some (popupContent (props_of f)))"
  using popupContent_name [of p s] popupContent_full_address [of p a]
    popupContent_part [of p k b] hover_html [of st i f fs] click_html [of st i f fs]
  by (simp only: popupContent_def) blast

theorem popup_content_verbatim_witness:
  \<open>popupContent example_markup
     = html_open @ ''<b>Rx</b>'' @ html_mid @ ''<img src=x onerror="alert(1)">'' @ html_close
   \<and> sublist ''<b>Rx</b>'' (popupContent example_markup)
   \<and> sublist ''<img src=x onerror="alert(1)">'' (popupContent example_markup)
   \<and> sublist ''<u>Troy</u>'' (popupContent example_markup_part)
   \<and> html (popups (dispatch (MouseEnterPoint (Some [example_feature])) (on_load (True, True) new_Map)) ! 0)
       = Some (popupContent example_markup)
   \<and> html (last (popups (dispatch (ClickPoint (Some [example_feature])) (on_load (True, True) new_Map))))
       = Some (popupContent example_markup)\<close>
proof -
  have loaded: "tooltip (on_load (True, True) new_Map) = Some 0
                \<and> 0 < length (popups (on_load (True, True) new_Map))"
    by (simp add: on_load_def Let_def new_Map_def addSource_def addLayer_def do_call_def)
  have name: \<open>get_prop example_markup ''name'' = JStr ''<b>Rx</b>'' \<and> ''<b>Rx</b>'' \<noteq> []\<close>
    by (simp add: example_markup_def get_prop_def)
  have addr: \<open>get_prop example_markup ''full_address'' = JStr ''<img src=x onerror="alert(1)">''
               \<and> ''<img src=x onerror="alert(1)">'' \<noteq> []\<close>
    by (simp add: example_markup_def get_prop_def)
  have part: "\<not> truthy (get_prop example_markup_part ''full_address'')
              \<and> ''city'' \<in> {''address'', ''city'', ''state''}
              \<and> get_prop example_markup_part ''city'' = JStr ''<u>Troy</u>'' \<and> ''<u>Troy</u>'' \<noteq> []"
    by (simp add: example_markup_part_def get_prop_def)
  have feat: "props_of example_feature = example_markup"
    by (simp add: example_feature_def props_of_def)
  have vals: \<open>to_string (display_name example_markup) = ''<b>Rx</b>''
     \<and> to_string (display_address example_markup) = ''<img src=x onerror="alert(1)">''\<close>
    by (simp add: display_name_def display_address_def js_or_def example_markup_def get_prop_def)
  note inst = popup_content_verbatim [of example_markup \<open>''<b>Rx</b>''\<close>
            \<open>''<img src=x onerror="alert(1)">''\<close> "''city''" "''<u>Troy</u>''"
            "on_load (True, True) new_Map" 0 example_feature "[]"]
  note inst_part = popup_content_verbatim [of example_markup_part "''<b>Rx</b>''" "''<b>Rx</b>''"
            "''city''" "''<u>Troy</u>''" "on_load (True, True) new_Map" 0 example_feature "[]"]
  from inst have "popupContent example_markup =
      html_open @ to_string (display_name example_markup) @ html_mid
        @ to_string (display_address example_markup) @ html_close"
    by (rule conjunct1)
  with vals have c0: \<open>popupContent example_markup
     = html_open @ ''<b>Rx</b>'' @ html_mid @ ''<img src=x onerror="alert(1)">'' @ html_close\<close>
    by (simp only:)
  from inst name have c1: "sublist ''<b>Rx</b>'' (popupContent example_markup)"
    by blast
  from inst addr have c2: \<open>sublist ''<img src=x onerror="alert(1)">'' (popupContent example_markup)\<close>
    by blast
  from inst_part part have c3: "sublist ''<u>Troy</u>'' (popupContent example_markup_part)"
    by blast
  from inst loaded have "html (popups (dispatch (MouseEnterPoint (Some [example_feature]))
        (on_load (True, True) new_Map)) ! 0) = Some (popupContent (props_of example_feature))"
    by blast
  with feat have c4: "html (popups (dispatch (MouseEnterPoint (Some [example_feature]))
        (on_load (True, True) new_Map)) ! 0) = Some (popupContent example_markup)"
    by (simp only:)
  from inst loaded have "html (last (popups (dispatch (ClickPoint (Some [example_feature]))
        (on_load (True, True) new_Map)))) = Some (popupContent (props_of example_feature))"
    by blast
  with feat have c5: "html (last (popups (dispatch (ClickPoint (Some [example_feature]))
        (on_load (True, True) new_Map)))) = Some (popupContent example_markup)"
    by (simp only:)
  from c0 c1 c2 c3 c4 c5 show ?thesis
    by blast
qed

section \<open>Properties of the paint expressions\<close>

text \<open>
  Claim C5. The cluster colour is a step function of the point count with thresholds 100
  and 750 and three colours; the cluster radius is 20 below 100, 30 from 100 to below 750
  and 40 from 750 on; the radius of a single point runs linearly from 4 at zoom 10 to 8 at
  zoom 15 (and keeps the end values outside that range), and its colour is one constant.
\<close>

theorem style_resolver:
  "clusters_circle_color n =
     (if n < 100 then ''#51bbd6'' else if n < 750 then ''#f1f075'' else ''#f28cb1'')
   \<and> clusters_circle_radius n = (if n < 100 then 20 else if n < 750 then 30 else 40)
   \<and> unclustered_point_circle_radius z =
       (if z \<le> 10 then 4 else if z < 15 then 4 + (z - 10) * ((8 - 4) / (15 - 10)) else 8)
   \<and> unclustered_point_circle_color = ''#11b4da''
   \<and> distinct [''#51bbd6'', ''#f1f075'', ''#f28cb1'']"
proof -
  have "clusters_circle_color n =
      (if n < 100 then ''#51bbd6'' else if n < 750 then ''#f1f075'' else ''#f28cb1'')"
    by (simp add: clusters_circle_color_def)
  moreover have "clusters_circle_radius n = (if n < 100 then 20 else if n < 750 then 30 else 40)"
    by (simp add: clusters_circle_radius_def)
  moreover have "unclustered_point_circle_radius z =
      (if z \<le> 10 then 4 else if z < 15 then 4 + (z - 10) * ((8 - 4) / (15 - 10)) else 8)"
    by (simp add: unclustered_point_circle_radius_def field_simps)
  moreover have "unclustered_point_circle_color = ''#11b4da''"
    by (simp add: unclustered_point_circle_color_def)
  moreover have "distinct [''#51bbd6'', ''#f1f075'', ''#f28cb1'']"
    by simp
  ultimately show ?thesis
    by (simp only: simp_thms)
qed

theorem style_resolver_witness:
  "clusters_circle_color 99 = ''#51bbd6'' \<and> clusters_circle_radius 99 = 20
   \<and> clusters_circle_color 100 = ''#f1f075'' \<and> clusters_circle_radius 100 = 30
   \<and> clusters_circle_color 749 = ''#f1f075'' \<and> clusters_circle_radius 749 = 30
   \<and> clusters_circle_color 750 = ''#f28cb1'' \<and> clusters_circle_radius 750 = 40
   \<and> unclustered_point_circle_radius 10 = 4
   \<and> unclustered_point_circle_radius (25 / 2) = 6
   \<and> unclustered_point_circle_radius 15 = 8
   \<and> unclustered_point_circle_radius 4 = 4
   \<and> unclustered_point_circle_radius 18 = 8"
  using style_resolver [of 99 10] style_resolver [of 100 "25 / 2"] style_resolver [of 749 15]
    style_resolver [of 750 4] style_resolver [of 750 18]
  by simp

section \<open>Properties of the application shell\<close>

text \<open>
  Claim C9. Without the token (undefined, or the empty string) the application returns
  the full-height screen with the message that the environment variable is not set, and
  that screen mounts no map component, so the renderer is never constructed; \<open>App\<close> is a
  function of the token alone, with no timer or effect that could try again. With a token
  the map component is mounted once, with that token.
\<close>

theorem token_guard:
  "(token = None \<or> token = Some [] \<longrightarrow>
      App token = missing_token_screen
      \<and> map_views (App token) = []
      \<and> ''Error: VITE_MAPBOX_ACCESS_TOKEN environment variable is not set.'' \<in> set (texts (App token))
      \<and> root_style (App token) ''height'' = Some ''100vh'')
   \<and> (token = Some t \<and> t \<noteq> [] \<longrightarrow> map_views (App token) = [t])"
proof -
  have "map_views missing_token_screen = []"
    by (simp add: missing_token_screen_def)
  moreover have "''Error: VITE_MAPBOX_ACCESS_TOKEN environment variable is not set.''
                  \<in> set (texts missing_token_screen)"
    by (simp add: missing_token_screen_def)
  moreover have "root_style missing_token_screen ''height'' = Some ''100vh''"
    by (simp add: missing_token_screen_def)
  moreover have "map_views (explorer_screen t) = [t]"
    by (simp add: explorer_screen_def)
  ultimately show ?thesis
    by (auto simp: App_def)
qed

theorem token_guard_witness:
  "map_views (App None) = [] \<and> map_views (App (Some [])) = []
   \<and> App None = missing_token_screen
   \<and> map_views (App (Some ''pk.test'')) = [''pk.test'']"
  using token_guard [of None "''pk.test''"] token_guard [of "Some []" "''pk.test''"]
    token_guard [of "Some ''pk.test''" "''pk.test''"]
  by blast

section \<open>Properties of the interaction handlers\<close>











subsection \<open>The hover tooltip\<close>








section \<open>Properties of the rendering-context handlers\<close>

text \<open>
  What the two handlers do by themselves: the loss is logged, the restoration is logged and
  the source is asked to reload. What a reload draws again is the map engine's matter.
\<close>

lemma context_lost:
  "dispatch ContextLost st = st\<lparr>calls := calls st @ [ConsoleWarn ''WebGL context lost'']\<rparr>"
  by (simp add: on_webglcontextlost_def do_call_def)

lemma context_restored:
  "dispatch ContextRestored st =
     st\<lparr>calls := calls st @ ConsoleLog ''WebGL context restored'' #
                   (case sources st ''pharmacies'' of
                      None \<Rightarrow> []
                    | Some src \<Rightarrow> if has_reload src then [Reload ''pharmacies''] else [])\<rparr>"
  by (simp add: on_webglcontextrestored_def do_call_def Let_def split: option.splits)

section \<open>Properties of mounting\<close>

lemma lifecycle_run_append: "lifecycle_run ok (xs @ ys) c = lifecycle_run ok ys (lifecycle_run ok xs c)"
  by (induction xs arbitrary: c) simp_all

lemma effect_zero:
  assumes "w = 0 \<or> h = 0"
  shows "effect ok (rendered w h) =
           (rendered w h)\<lparr>console := [ConsoleWarn ''Map container has no dimensions, waiting...''],
                           timer := Some 100, cleanup := ClearTimeout\<rparr>"
  using assms by (auto simp: effect_def rendered_def)

lemma effect_nonzero:
  assumes "0 < w" and "0 < h"
  shows "map_current (effect ok (rendered w h)) = (if ok then Some new_Map else None)"
  using assms by (simp add: effect_def rendered_def initializeMap_def)

lemma retry_once:
  assumes "w = 0 \<or> h = 0"
  shows "map_current (lifecycle_run ok [EffectRuns, Resized w' h', TimerFires] (rendered w h))
           = (if 0 < w' \<and> 0 < h' \<and> ok then Some new_Map else None)"
    and "timer (lifecycle_run ok [EffectRuns, Resized w' h', TimerFires] (rendered w h)) = None"
  using assms by (auto simp: effect_def rendered_def timer_fired_def initializeMap_def)

lemma no_timer_step:
  assumes "timer c = None" and "map_current c = None" and "e \<noteq> EffectRuns"
  shows "timer (lifecycle_step ok e c) = None \<and> map_current (lifecycle_step ok e c) = None"
  using assms
  by (cases e) (auto simp: timer_fired_def unmount_def split: option.splits cleanup.splits)

lemma no_timer_run:
  assumes "timer c = None" and "map_current c = None" and "EffectRuns \<notin> set es"
  shows "timer (lifecycle_run ok es c) = None \<and> map_current (lifecycle_run ok es c) = None"
  using assms
proof (induction es arbitrary: c)
  case Nil
  then show ?case by simp
next
  case (Cons e es)
  then have "e \<noteq> EffectRuns" and rest: "EffectRuns \<notin> set es"
    by auto
  with Cons.prems no_timer_step [of c e ok]
  have "timer (lifecycle_step ok e c) = None \<and> map_current (lifecycle_step ok e c) = None"
    by blast
  with Cons.IH rest show ?case
    by simp
qed

text \<open>
  Claim C7, as the code has it. When the host element has zero width or height as the
  effect runs, initialization is deferred: a warning is logged and one timeout of 100 ms
  is set. When it fires, the map is constructed if the element then has nonzero width and
  height (and the constructor does not throw); the timeout is spent either way. If the map
  was not constructed then, no timeout is pending and the map stays unconstructed whatever
  happens to the mounted component afterwards: there is one retry, not a loop. With
  nonzero width and height as the effect runs, the map is constructed at once.
\<close>

theorem surface_retry:
  "(w = 0 \<or> h = 0 \<longrightarrow>
      effect ok (rendered w h) =
        (rendered w h)\<lparr>console := [ConsoleWarn ''Map container has no dimensions, waiting...''],
                        timer := Some 100, cleanup := ClearTimeout\<rparr>
      \<and> map_current (lifecycle_run ok [EffectRuns, Resized w' h', TimerFires] (rendered w h))
          = (if 0 < w' \<and> 0 < h' \<and> ok then Some new_Map else None)
      \<and> timer (lifecycle_run ok [EffectRuns, Resized w' h', TimerFires] (rendered w h)) = None
      \<and> (\<not> (0 < w' \<and> 0 < h' \<and> ok) \<and> EffectRuns \<notin> set es \<longrightarrow>
           map_current (lifecycle_run ok ([EffectRuns, Resized w' h', TimerFires] @ es) (rendered w h)) = None
           \<and> timer (lifecycle_run ok ([EffectRuns, Resized w' h', TimerFires] @ es) (rendered w h)) = None))
   \<and> (0 < w \<and> 0 < h \<longrightarrow>
        map_current (effect ok (rendered w h)) = (if ok then Some new_Map else None))"
proof -
  let ?c = "lifecycle_run ok [EffectRuns, Resized w' h', TimerFires] (rendered w h)"
  have later: "map_current (lifecycle_run ok ([EffectRuns, Resized w' h', TimerFires] @ es) (rendered w h)) = None
        \<and> timer (lifecycle_run ok ([EffectRuns, Resized w' h', TimerFires] @ es) (rendered w h)) = None"
    if zero: "w = 0 \<or> h = 0" and still: "\<not> (0 < w' \<and> 0 < h' \<and> ok)" and es: "EffectRuns \<notin> set es"
  proof -
    from zero still have "timer ?c = None" and "map_current ?c = None"
      using retry_once [of w h ok w' h'] by simp_all
    then have "timer (lifecycle_run ok es ?c) = None \<and> map_current (lifecycle_run ok es ?c) = None"
      using es by (rule no_timer_run)
    then show ?thesis
      by (simp only: lifecycle_run_append)
  qed
  show ?thesis
  proof (intro conjI impI)
    assume "w = 0 \<or> h = 0"
    then show "effect ok (rendered w h) =
        (rendered w h)\<lparr>console := [ConsoleWarn ''Map container has no dimensions, waiting...''],
                        timer := Some 100, cleanup := ClearTimeout\<rparr>"
      by (rule effect_zero)
  next
    assume "w = 0 \<or> h = 0"
    then show "map_current ?c = (if 0 < w' \<and> 0 < h' \<and> ok then Some new_Map else None)"
      by (rule retry_once)
  next
    assume "w = 0 \<or> h = 0"
    then show "timer ?c = None"
      by (rule retry_once)
  next
    assume z: "w = 0 \<or> h = 0" and h: "\<not> (0 < w' \<and> 0 < h' \<and> ok) \<and> EffectRuns \<notin> set es"
    from h have "\<not> (0 < w' \<and> 0 < h' \<and> ok)" and "EffectRuns \<notin> set es"
      by (rule conjunct1, rule conjunct2)
    with z have "map_current (lifecycle_run ok ([EffectRuns, Resized w' h', TimerFires] @ es) (rendered w h)) = None
        \<and> timer (lifecycle_run ok ([EffectRuns, Resized w' h', TimerFires] @ es) (rendered w h)) = None"
      by (rule later)
    then show "map_current (lifecycle_run ok ([EffectRuns, Resized w' h', TimerFires] @ es) (rendered w h)) = None"
      by (rule conjunct1)
  next
    assume z: "w = 0 \<or> h = 0" and h: "\<not> (0 < w' \<and> 0 < h' \<and> ok) \<and> EffectRuns \<notin> set es"
    from h have "\<not> (0 < w' \<and> 0 < h' \<and> ok)" and "EffectRuns \<notin> set es"
      by (rule conjunct1, rule conjunct2)
    with z have "map_current (lifecycle_run ok ([EffectRuns, Resized w' h', TimerFires] @ es) (rendered w h)) = None
        \<and> timer (lifecycle_run ok ([EffectRuns, Resized w' h', TimerFires] @ es) (rendered w h)) = None"
      by (rule later)
    then show "timer (lifecycle_run ok ([EffectRuns, Resized w' h', TimerFires] @ es) (rendered w h)) = None"
      by (rule conjunct2)
  next
    assume "0 < w \<and> 0 < h"
    then show "map_current (effect ok (rendered w h)) = (if ok then Some new_Map else None)"
      by (intro effect_nonzero) simp_all
  qed
qed

theorem surface_retry_witness:
  "effect True (rendered 0 600) =
     (rendered 0 600)\<lparr>console := [ConsoleWarn ''Map container has no dimensions, waiting...''],
                       timer := Some 100, cleanup := ClearTimeout\<rparr>
   \<and> map_current (lifecycle_run True [EffectRuns, Resized 800 600, TimerFires] (rendered 0 600)) = Some new_Map
   \<and> map_current (lifecycle_run True [EffectRuns, Resized 0 600, TimerFires, Resized 800 600, TimerFires]
                    (rendered 0 600)) = None
   \<and> map_current (effect True (rendered 800 600)) = Some new_Map"
proof -
  note a = surface_retry [of 0 600 True 800 600 "[]"]
  note b = surface_retry [of 0 600 True 0 600 "[Resized 800 600, TimerFires]"]
  note c = surface_retry [of 800 600 True 0 0 "[]"]
  have es: "EffectRuns \<notin> set [Resized 800 600, TimerFires]"
    by simp
  have app: "[EffectRuns, Resized 0 600, TimerFires] @ [Resized 800 600, TimerFires]
             = [EffectRuns, Resized 0 600, TimerFires, Resized 800 600, TimerFires]"
    by simp
  have z: "(0::nat) = 0 \<or> (600::nat) = 0"
    by simp
  have nz: "(0::nat) < 800 \<and> (0::nat) < 600"
    by simp
  have still: "\<not> ((0::nat) < 0 \<and> (0::nat) < 600 \<and> True)"
    by simp
  have pos: "((0::nat) < 800 \<and> (0::nat) < 600 \<and> True) = True"
    by simp
  from a z have 1: "effect True (rendered 0 600) =
     (rendered 0 600)\<lparr>console := [ConsoleWarn ''Map container has no dimensions, waiting...''],
                       timer := Some 100, cleanup := ClearTimeout\<rparr>"
    by blast
  from a z have "map_current (lifecycle_run True [EffectRuns, Resized 800 600, TimerFires] (rendered 0 600))
      = (if (0::nat) < 800 \<and> (0::nat) < 600 \<and> True then Some new_Map else None)"
    by blast
  then have 2: "map_current (lifecycle_run True [EffectRuns, Resized 800 600, TimerFires] (rendered 0 600))
      = Some new_Map"
    by (simp only: pos if_True)
  from b z still es have "map_current (lifecycle_run True ([EffectRuns, Resized 0 600, TimerFires]
      @ [Resized 800 600, TimerFires]) (rendered 0 600)) = None"
    by blast
  then have 3: "map_current (lifecycle_run True [EffectRuns, Resized 0 600, TimerFires, Resized 800 600, TimerFires]
                    (rendered 0 600)) = None"
    by (simp only: app)
  from c nz have "map_current (effect True (rendered 800 600)) = (if True then Some new_Map else None)"
    by blast
  then have 4: "map_current (effect True (rendered 800 600)) = Some new_Map"
    by (simp only: if_True)
  from 1 2 3 4 show ?thesis
    by blast
qed

text \<open>
  The claim as the specification states it (retrying until the surface reports nonzero
  dimensions, the map being initialized once they are nonzero) fails: an element that is
  still unsized when the one timeout fires and takes its size afterwards is left without
  a map and without a pending timeout.
\<close>

theorem surface_retry_counterexample:
  "lifecycle_run True [EffectRuns, TimerFires, Resized 800 600, TimerFires] (rendered 0 600) =
     \<lparr>container = Some (800, 600), map_current = None, timer = None, cleanup = ClearTimeout,
      console = [ConsoleWarn ''Map container has no dimensions, waiting...'']\<rparr>"
  by (simp add: rendered_def effect_def timer_fired_def initializeMap_def)

end
